theory Spec2Isabelle
  imports Main "HOL-Library.Word"
begin

unbundle bit_operations_syntax

section \<open>logshare-cli: the data model of \<^verbatim>\<open>cmd/logshare-cli/main.go\<close>\<close>

subsection \<open>Go's \<^verbatim>\<open>float64\<close>: IEEE 754 binary64 and its comparisons\<close>

text \<open>
  A \<^verbatim>\<open>float64\<close> is its 64-bit pattern: sign (bit 63), biased exponent (bits 62..52)
  and fraction (bits 51..0). An exponent of 2047 with a non-zero fraction is a NaN.
  Every other pattern has a value, given here scaled by \<open>2 ^ 1074\<close> so that it is an
  integer: a subnormal is its fraction, a normal number is \<open>(2 ^ 52 + fraction) * 2 ^ (exponent - 1)\<close>,
  and the same formula at exponent 2047 puts the infinities beyond every finite value.
  Go compares as IEEE 754 does: \<^verbatim>\<open><\<close>, \<^verbatim>\<open>></\<close> and \<^verbatim>\<open>==\<close> are false as soon as
  an operand is a NaN, \<^verbatim>\<open>!=\<close> is the negation of \<^verbatim>\<open>==\<close>, and the two zeros are equal.
\<close>

type_synonym float64 = "64 word"

definition f64_sign :: "float64 \<Rightarrow> bool" where
  "f64_sign x = bit x 63"

definition f64_exponent :: "float64 \<Rightarrow> nat" where
  "f64_exponent x = unat (take_bit 11 (drop_bit 52 x))"

definition f64_fraction :: "float64 \<Rightarrow> nat" where
  "f64_fraction x = unat (take_bit 52 x)"

definition f64_isNaN :: "float64 \<Rightarrow> bool" where
  "f64_isNaN x = (f64_exponent x = 2047 \<and> f64_fraction x \<noteq> 0)"

definition f64_magnitude :: "float64 \<Rightarrow> int" where
  "f64_magnitude x =
     (if f64_exponent x = 0 then int (f64_fraction x)
      else (2 ^ 52 + int (f64_fraction x)) * 2 ^ (f64_exponent x - 1))"

definition f64_scaled :: "float64 \<Rightarrow> int" where
  "f64_scaled x = (if f64_sign x then - f64_magnitude x else f64_magnitude x)"

definition f64_lt :: "float64 \<Rightarrow> float64 \<Rightarrow> bool" where
  "f64_lt a b = (\<not> f64_isNaN a \<and> \<not> f64_isNaN b \<and> f64_scaled a < f64_scaled b)"

definition f64_gt :: "float64 \<Rightarrow> float64 \<Rightarrow> bool" where
  "f64_gt a b = f64_lt b a"

definition f64_eq :: "float64 \<Rightarrow> float64 \<Rightarrow> bool" where
  "f64_eq a b = (\<not> f64_isNaN a \<and> \<not> f64_isNaN b \<and> f64_scaled a = f64_scaled b)"

definition f64_ne :: "float64 \<Rightarrow> float64 \<Rightarrow> bool" where
  "f64_ne a b = (\<not> f64_eq a b)"

definition f64_le :: "float64 \<Rightarrow> float64 \<Rightarrow> bool" where
  "f64_le a b = (\<not> f64_isNaN a \<and> \<not> f64_isNaN b \<and> f64_scaled a \<le> f64_scaled b)"

text \<open>
  The three constants of \<^verbatim>\<open>Validate\<close>, as the compiler rounds them to \<^verbatim>\<open>float64\<close>:
  \<^verbatim>\<open>0.0\<close>, \<^verbatim>\<open>0.1\<close> (\<^verbatim>\<open>0x3FB999999999999A\<close>) and \<^verbatim>\<open>0.9\<close> (\<^verbatim>\<open>0x3FECCCCCCCCCCCCD\<close>).
\<close>

definition f64_0_0 :: float64 where
  "f64_0_0 = 0"

definition f64_0_1 :: float64 where
  "f64_0_1 = 0x3FB999999999999A"

definition f64_0_9 :: float64 where
  "f64_0_9 = 0x3FECCCCCCCCCCCCD"

subsection \<open>Errors\<close>

text \<open>
  An \<^verbatim>\<open>error\<close> value is either made by \<^verbatim>\<open>errors.New\<close>, made by \<^verbatim>\<open>errors.Wrap\<close>
  around another error, or comes out of one of the libraries with its text. A nil
  \<^verbatim>\<open>error\<close> is \<open>None\<close>. \<open>Error\<close> is the method \<^verbatim>\<open>Error()\<close>: a wrapped error
  prints its context, a colon and its cause.
\<close>

datatype error =
    errors_New string
  | Wrapped error string
  | Library string

fun Error :: "error \<Rightarrow> string" where
  "Error (errors_New s) = s"
| "Error (Wrapped e msg) = msg @ '': '' @ Error e"
| "Error (Library s) = s"

fun errors_Wrap :: "error option \<Rightarrow> string \<Rightarrow> error option" where
  "errors_Wrap None msg = None"
| "errors_Wrap (Some e) msg = Some (Wrapped e msg)"

subsection \<open>The configuration\<close>

text \<open>
  The struct \<^verbatim>\<open>config\<close>. \<^verbatim>\<open>int64\<close> and \<^verbatim>\<open>int\<close> (64 bits on the platforms Go's
  cloud libraries support) are 64-bit words. The field \<^verbatim>\<open>fields\<close> is \<open>fields_conf\<close>
  here (the record package keeps the name \<open>fields\<close> for itself).
\<close>

record config =
  apiKey :: string
  apiEmail :: string
  zoneID :: string
  zoneName :: string
  startTime :: "64 word"
  endTime :: "64 word"
  count :: "64 word"
  timestampFormat :: string
  sample :: float64
  fields_conf :: "string list"
  listFields :: bool
  googleStorageBucket :: string
  googleProjectID :: string

text \<open>
  \<^verbatim>\<open>func (conf *config) Validate() error\<close>: four checks in the order of the source,
  each returning its own \<^verbatim>\<open>errors.New\<close>. The method reads the fields of its receiver and
  writes none.
\<close>

definition Validate :: "config \<Rightarrow> error option" where
  "Validate conf =
     (if apiKey conf = '''' \<or> apiEmail conf = '''' then
        Some (errors_New ''Must provide both api-key and api-email'')
      else if zoneID conf = '''' \<and> zoneName conf = '''' then
        Some (errors_New ''zone-name OR zone-id must be set'')
      else if f64_ne (sample conf) f64_0_0 \<and>
              (f64_lt (sample conf) f64_0_1 \<or> f64_gt (sample conf) f64_0_9) then
        Some (errors_New ''sample must be between 0.1 and 0.9'')
      else if (googleStorageBucket conf = '''') \<noteq> (googleProjectID conf = '''') then
        Some (errors_New ''Both google-storage-bucket and google-project-id must be provided to upload to Google Storage'')
      else None)"

subsection \<open>The command line\<close>

text \<open>
  What the code reads from \<^verbatim>\<open>*cli.Context\<close>: the value of every global flag
  (\<^verbatim>\<open>c.GlobalString("api-key")\<close> is \<open>api_key c\<close>, and so on) and the \<^verbatim>\<open>loop-wait\<close>
  flag of the \<^verbatim>\<open>loop\<close> command.
\<close>

record cli_Context =
  api_key :: string
  api_email :: string
  zone_id :: string
  zone_name :: string
  start_time :: "64 word"
  end_time :: "64 word"
  count_flag :: "64 word"
  timestamp_format :: string
  sample_flag :: float64
  fields_flag :: "string list"
  list_fields :: bool
  google_storage_bucket :: string
  google_project_id :: string
  loop_wait :: "64 word"

subsection \<open>The libraries, as capabilities\<close>

text \<open>
  Handles of the libraries are opaque; a nil pointer is \<open>None\<close>. A \<^verbatim>\<open>*gcs.Writer\<close> is
  known by the client, the bucket and the object it writes to.
\<close>

type_synonym cloudflare_API = nat
type_synonym gcs_Client = nat
type_synonym logshare_Client = nat

datatype gcs_Writer = gcs_Writer "gcs_Client option" string string

record Options =
  Fields :: "string list"
  Dest :: "gcs_Writer option"
  ByReceived :: bool
  Sample :: float64
  TimestampFormat :: string

record Meta =
  StatusCode :: "64 word"
  Duration :: "64 word"
  URL :: string
  Count :: "64 word"

text \<open>
  Everything the program does to the outside is an event of its trace: the calls into
  the libraries, the lines it logs, its sleeps.
\<close>

datatype event =
    Ev_ShowAppHelp
  | Ev_cloudflare_New string string
  | Ev_ZoneIDByName string
  | Ev_gcs_NewClient
  | Ev_Bucket_Create string string
  | Ev_NewWriter string string
  | Ev_logshare_New string string Options
  | Ev_FetchFieldNames string
  | Ev_GetFromTimestamp string "64 word" "64 word" "64 word"
  | Ev_log_Bucket_exists string
  | Ev_log_Println_error error
  | Ev_log_HTTP_status "64 word" "64 word" string
  | Ev_log_Retrieved "64 word"
  | Ev_log_sleeping "64 word"
  | Ev_time_Sleep "64 word"
  | Ev_Close "gcs_Writer option"

text \<open>
  The answers of the libraries are parameters of the model, with the result types of
  the Go functions: \<^verbatim>\<open>cloudflare.New\<close>, \<^verbatim>\<open>(*API).ZoneIDByName\<close>, \<^verbatim>\<open>gcs.NewClient\<close>,
  \<^verbatim>\<open>(*BucketHandle).Create\<close>, \<^verbatim>\<open>logshare.New\<close>, the two fetch operations of the
  client, and \<^verbatim>\<open>time.Now().Unix()\<close>. The fetch operations are called again and again by
  the loop, so their answer may depend on all that happened before (the trace).
\<close>

record extern =
  cloudflare_New :: "string \<Rightarrow> string \<Rightarrow> cloudflare_API option \<times> error option"
  ZoneIDByName :: "cloudflare_API option \<Rightarrow> string \<Rightarrow> string \<times> error option"
  gcs_NewClient :: "gcs_Client option \<times> error option"
  Bucket_Create :: "gcs_Client option \<Rightarrow> string \<Rightarrow> string \<Rightarrow> error option"
  logshare_New :: "string \<Rightarrow> string \<Rightarrow> Options \<Rightarrow> logshare_Client option \<times> error option"
  FetchFieldNames ::
    "event list \<Rightarrow> logshare_Client option \<Rightarrow> string \<Rightarrow> Meta option \<times> error option"
  GetFromTimestamp ::
    "event list \<Rightarrow> logshare_Client option \<Rightarrow> string \<Rightarrow> 64 word \<Rightarrow> 64 word \<Rightarrow> 64 word
       \<Rightarrow> Meta option \<times> error option"
  time_Now_Unix :: "64 word"

subsection \<open>State and outcomes\<close>

text \<open>
  The state is the one \<^verbatim>\<open>config\<close> that \<^verbatim>\<open>main\<close> allocates and every function receives
  by pointer, and the trace so far. A function ends by returning, or by a panic (a nil
  dereference); the endless \<^verbatim>\<open>for\<close> of loop mode is run for a number of iterations, and
  \<open>OutOfFuel\<close> says it was still running after them.
\<close>

record world =
  conf :: config
  trace :: "event list"

datatype 'a exec = Return 'a | Panic | OutOfFuel

definition emit :: "event \<Rightarrow> world \<Rightarrow> world" where
  "emit e w = w\<lparr>trace := trace w @ [e]\<rparr>"

subsection \<open>Library functions on strings\<close>

fun strings_HasPrefix :: "string \<Rightarrow> string \<Rightarrow> bool" where
  "strings_HasPrefix s [] = True"
| "strings_HasPrefix [] (p # ps) = False"
| "strings_HasPrefix (c # cs) (p # ps) = (c = p \<and> strings_HasPrefix cs ps)"

fun strings_Contains :: "string \<Rightarrow> string \<Rightarrow> bool" where
  "strings_Contains [] substr = (substr = [])"
| "strings_Contains (c # cs) substr =
     (strings_HasPrefix (c # cs) substr \<or> strings_Contains cs substr)"

definition digit_char :: "nat \<Rightarrow> char" where
  "digit_char d = ''0123456789'' ! d"

fun decimal :: "nat \<Rightarrow> string" where
  "decimal n = (if n < 10 then [digit_char n] else decimal (n div 10) @ [digit_char (n mod 10)])"

declare decimal.simps [simp del]

definition strconv_Itoa :: "64 word \<Rightarrow> string" where
  "strconv_Itoa i =
     (if sint i < 0 then CHR ''-'' # decimal (nat (- sint i)) else decimal (nat (sint i)))"

section \<open>The functions of \<^verbatim>\<open>main.go\<close>\<close>

subsection \<open>\<^verbatim>\<open>setupGoogleStr\<close>\<close>

text \<open>
  Lines 48 to 67. After \<^verbatim>\<open>gcs.NewClient\<close> the result of \<^verbatim>\<open>gBucket.Create\<close> is assigned
  to \<^verbatim>\<open>error\<close>, and the condition of the \<^verbatim>\<open>if\<close> calls \<^verbatim>\<open>error.Error()\<close> before any
  test for nil: on a nil \<^verbatim>\<open>error\<close> that method call is a nil dereference, a panic.
\<close>

definition setupGoogleStr ::
  "extern \<Rightarrow> string \<Rightarrow> string \<Rightarrow> string \<Rightarrow> world
     \<Rightarrow> (gcs_Writer option \<times> error option) exec \<times> world" where
  "setupGoogleStr env projectID bucketName filename w =
     (case gcs_NewClient env of (gClient, err0) \<Rightarrow>
        let w1 = emit Ev_gcs_NewClient w in
        if err0 \<noteq> None then (Return (None, err0), w1)
        else
          let err1 = Bucket_Create env gClient bucketName projectID;
              w2 = emit (Ev_Bucket_Create bucketName projectID) w1
          in (case err1 of
                None \<Rightarrow> (Panic, w2)
              | Some e \<Rightarrow>
                  if strings_Contains (Error e) ''409'' then
                    let w3 = emit (Ev_log_Bucket_exists bucketName) w2;
                        err2 = None
                    in (Return (Some (gcs_Writer gClient bucketName filename), err2),
                        emit (Ev_NewWriter bucketName filename) w3)
                  else if err1 \<noteq> None then (Return (None, err1), w2)
                  else (Return (Some (gcs_Writer gClient bucketName filename), err1),
                        emit (Ev_NewWriter bucketName filename) w2)))"

subsection \<open>\<^verbatim>\<open>parseFlags\<close>\<close>

text \<open>Lines 182 to 198: every field is assigned from its flag, then \<^verbatim>\<open>Validate\<close> decides.\<close>

definition parseFlags :: "cli_Context \<Rightarrow> world \<Rightarrow> error option \<times> world" where
  "parseFlags c w =
     (let conf' = (conf w)\<lparr>
            apiKey := api_key c,
            apiEmail := api_email c,
            zoneID := zone_id c,
            zoneName := zone_name c,
            startTime := start_time c,
            endTime := end_time c,
            count := count_flag c,
            timestampFormat := timestamp_format c,
            sample := sample_flag c,
            fields_conf := fields_flag c,
            listFields := list_fields c,
            googleStorageBucket := google_storage_bucket c,
            googleProjectID := google_project_id c\<rparr>
      in (Validate conf', w\<lparr>conf := conf'\<rparr>))"

subsection \<open>\<^verbatim>\<open>GetClientFromConfigAndContext\<close>\<close>

text \<open>
  Lines 140 to 153: \<^verbatim>\<open>logshare.New\<close> with the options taken from the configuration and
  the sink chosen before.
\<close>

definition GetClient_build ::
  "extern \<Rightarrow> gcs_Writer option list \<Rightarrow> gcs_Writer option \<Rightarrow> world
     \<Rightarrow> (logshare_Client option \<times> gcs_Writer option list \<times> error option) exec \<times> world" where
  "GetClient_build env closers outputWriter w =
     (let opts = \<lparr>Fields = fields_conf (conf w), Dest = outputWriter, ByReceived = True,
                  Sample = sample (conf w), TimestampFormat = timestampFormat (conf w)\<rparr>
      in case logshare_New env (apiKey (conf w)) (apiEmail (conf w)) opts of (client, err) \<Rightarrow>
           let w1 = emit (Ev_logshare_New (apiKey (conf w)) (apiEmail (conf w)) opts) w
           in if err \<noteq> None then (Return (None, closers, err), w1)
              else (Return (client, closers, None), w1))"

text \<open>
  Lines 128 to 138, the optional sink, followed by the client. The object name is
  \<^verbatim>\<open>"cloudflare_els_" + conf.zoneID + "_" + strconv.Itoa(int(time.Now().Unix())) + ".json"\<close>.
\<close>

definition GetClient_sink_and_client ::
  "extern \<Rightarrow> gcs_Writer option list \<Rightarrow> world
     \<Rightarrow> (logshare_Client option \<times> gcs_Writer option list \<times> error option) exec \<times> world" where
  "GetClient_sink_and_client env closers w =
     (if googleStorageBucket (conf w) \<noteq> '''' then
        let fileName = ''cloudflare_els_'' @ zoneID (conf w) @ ''_''
                         @ strconv_Itoa (time_Now_Unix env) @ ''.json''
        in (case setupGoogleStr env (googleProjectID (conf w)) (googleStorageBucket (conf w))
                   fileName w of
              (Panic, w1) \<Rightarrow> (Panic, w1)
            | (OutOfFuel, w1) \<Rightarrow> (OutOfFuel, w1)
            | (Return (gcsWriter, err), w1) \<Rightarrow>
                if err \<noteq> None then (Return (None, closers, err), w1)
                else GetClient_build env (closers @ [gcsWriter]) gcsWriter w1)
      else GetClient_build env closers None w)"

text \<open>
  Lines 109 to 126: parse and validate; then, only if the zone identifier is empty, build
  the Cloudflare client and look the zone up by name. The \<^verbatim>\<open>err\<close> of \<^verbatim>\<open>cloudflare.New\<close>
  is overwritten by the \<^verbatim>\<open>err\<close> of \<^verbatim>\<open>ZoneIDByName\<close> before anything reads it.
\<close>

definition GetClientFromConfigAndContext ::
  "extern \<Rightarrow> cli_Context \<Rightarrow> world
     \<Rightarrow> (logshare_Client option \<times> gcs_Writer option list \<times> error option) exec \<times> world" where
  "GetClientFromConfigAndContext env c w =
     (let closers = [] in
      case parseFlags c w of (err, w1) \<Rightarrow>
        if err \<noteq> None then (Return (None, closers, err), emit Ev_ShowAppHelp w1)
        else if zoneID (conf w1) = '''' then
          (case cloudflare_New env (apiKey (conf w1)) (apiEmail (conf w1)) of (cf, err0) \<Rightarrow>
             let w2 = emit (Ev_cloudflare_New (apiKey (conf w1)) (apiEmail (conf w1))) w1 in
             case ZoneIDByName env cf (zoneName (conf w2)) of (id', err1) \<Rightarrow>
               let w3 = emit (Ev_ZoneIDByName (zoneName (conf w2))) w2 in
               if err1 \<noteq> None then
                 (Return (None, closers,
                          errors_Wrap err1 ''could not find a zone for the given ID''),
                  emit Ev_ShowAppHelp w3)
               else GetClient_sink_and_client env closers (w3\<lparr>conf := (conf w3)\<lparr>zoneID := id'\<rparr>\<rparr>))
        else GetClient_sink_and_client env closers w1)"

subsection \<open>\<^verbatim>\<open>ClientWork\<close>\<close>

text \<open>
  Lines 175 to 179: the two log lines read the fields of the \<^verbatim>\<open>*Meta\<close> the library
  returned, a nil dereference if it is nil; then \<^verbatim>\<open>return nil\<close>.
\<close>

definition ClientWork_log ::
  "Meta option \<Rightarrow> world \<Rightarrow> error option exec \<times> world" where
  "ClientWork_log meta w =
     (case meta of
        None \<Rightarrow> (Panic, w)
      | Some m \<Rightarrow>
          (Return None,
           emit (Ev_log_Retrieved (Count m))
             (emit (Ev_log_HTTP_status (StatusCode m) (Duration m) (URL m)) w)))"

text \<open>Lines 156 to 173: the branch on \<^verbatim>\<open>conf.listFields\<close>, one fetch in each.\<close>

definition ClientWork ::
  "extern \<Rightarrow> logshare_Client option \<Rightarrow> world \<Rightarrow> error option exec \<times> world" where
  "ClientWork env client w =
     (if listFields (conf w) then
        (case FetchFieldNames env (trace w) client (zoneID (conf w)) of (meta, err) \<Rightarrow>
           let w1 = emit (Ev_FetchFieldNames (zoneID (conf w))) w in
           if err \<noteq> None then (Return (errors_Wrap err ''failed to fetch field names''), w1)
           else ClientWork_log meta w1)
      else
        (case GetFromTimestamp env (trace w) client (zoneID (conf w)) (startTime (conf w))
                (endTime (conf w)) (count (conf w)) of (meta, err) \<Rightarrow>
           let w1 = emit (Ev_GetFromTimestamp (zoneID (conf w)) (startTime (conf w))
                            (endTime (conf w)) (count (conf w))) w in
           if err \<noteq> None then (Return (errors_Wrap err ''failed to fetch via timestamp''), w1)
           else ClientWork_log meta w1))"

subsection \<open>\<^verbatim>\<open>run\<close> and \<^verbatim>\<open>runLoop\<close>\<close>

text \<open>
  The deferred function closes every closer when the action ends, by return or by panic.
  It is registered after \<^verbatim>\<open>GetClientFromConfigAndContext\<close> has returned.
\<close>

fun close_all :: "gcs_Writer option list \<Rightarrow> world \<Rightarrow> world" where
  "close_all [] w = w"
| "close_all (c # cs) w = close_all cs (emit (Ev_Close c) w)"

definition run :: "extern \<Rightarrow> cli_Context \<Rightarrow> world \<Rightarrow> error option exec \<times> world" where
  "run env c w =
     (case GetClientFromConfigAndContext env c w of
        (Panic, w1) \<Rightarrow> (Panic, w1)
      | (OutOfFuel, w1) \<Rightarrow> (OutOfFuel, w1)
      | (Return (client, closers, err), w1) \<Rightarrow>
          if err \<noteq> None then (Return err, close_all closers w1)
          else (case ClientWork env client w1 of (r, w2) \<Rightarrow> (r, close_all closers w2)))"

text \<open>
  Lines 98 to 105, the body of the \<^verbatim>\<open>for\<close>: fetch, log the error if there is one, log
  the sleep, sleep. The argument of \<^verbatim>\<open>time.Sleep\<close> is
  \<^verbatim>\<open>time.Duration(loopTime) * time.Second\<close>, a 64-bit product in nanoseconds.
\<close>

definition time_Second :: "64 word" where
  "time_Second = 1000000000"

definition loop_body ::
  "extern \<Rightarrow> 64 word \<Rightarrow> logshare_Client option \<Rightarrow> world \<Rightarrow> unit exec \<times> world" where
  "loop_body env loopTime client w =
     (case ClientWork env client w of
        (Panic, w1) \<Rightarrow> (Panic, w1)
      | (OutOfFuel, w1) \<Rightarrow> (OutOfFuel, w1)
      | (Return err, w1) \<Rightarrow>
          let w2 = (case err of None \<Rightarrow> w1 | Some e \<Rightarrow> emit (Ev_log_Println_error e) w1);
              w3 = emit (Ev_log_sleeping loopTime) w2;
              w4 = emit (Ev_time_Sleep (loopTime * time_Second)) w3
          in (Return (), w4))"

text \<open>
  The \<^verbatim>\<open>for\<close> has no condition, no \<^verbatim>\<open>break\<close> and no \<^verbatim>\<open>return\<close>: it is run here for
  a number of iterations, and \<open>OutOfFuel\<close> is the answer when it is still running after
  them. Only a panic of the body ends it earlier.
\<close>

fun runLoop_for ::
  "extern \<Rightarrow> 64 word \<Rightarrow> logshare_Client option \<Rightarrow> nat \<Rightarrow> world \<Rightarrow> error option exec \<times> world" where
  "runLoop_for env loopTime client 0 w = (OutOfFuel, w)"
| "runLoop_for env loopTime client (Suc n) w =
     (case loop_body env loopTime client w of
        (Panic, w1) \<Rightarrow> (Panic, w1)
      | (OutOfFuel, w1) \<Rightarrow> (OutOfFuel, w1)
      | (Return u, w1) \<Rightarrow> runLoop_for env loopTime client n w1)"

definition runLoop ::
  "extern \<Rightarrow> cli_Context \<Rightarrow> nat \<Rightarrow> world \<Rightarrow> error option exec \<times> world" where
  "runLoop env c fuel w =
     (let loopTime = loop_wait c in
      case GetClientFromConfigAndContext env c w of
        (Panic, w1) \<Rightarrow> (Panic, w1)
      | (OutOfFuel, w1) \<Rightarrow> (OutOfFuel, w1)
      | (Return (client, closers, err), w1) \<Rightarrow>
          if err \<noteq> None then (Return err, close_all closers w1)
          else (case runLoop_for env loopTime client fuel w1 of
                  (OutOfFuel, w2) \<Rightarrow> (OutOfFuel, w2)
                | (r, w2) \<Rightarrow> (r, close_all closers w2)))"

section \<open>Observations on traces\<close>

text \<open>How often the zone was looked up by name, and how often each fetch was called.\<close>

fun is_lookup :: "event \<Rightarrow> bool" where
  "is_lookup (Ev_ZoneIDByName n) = True"
| "is_lookup e = False"

fun is_field_fetch :: "event \<Rightarrow> bool" where
  "is_field_fetch (Ev_FetchFieldNames z) = True"
| "is_field_fetch e = False"

fun is_range_fetch :: "event \<Rightarrow> bool" where
  "is_range_fetch (Ev_GetFromTimestamp z s e n) = True"
| "is_range_fetch e = False"

definition lookups :: "event list \<Rightarrow> nat" where
  "lookups t = length (filter is_lookup t)"

definition field_fetches :: "event list \<Rightarrow> nat" where
  "field_fetches t = length (filter is_field_fetch t)"

definition range_fetches :: "event list \<Rightarrow> nat" where
  "range_fetches t = length (filter is_range_fetch t)"





section \<open>Concrete inputs\<close>

text \<open>
  A configuration, a command line and a set of library answers to evaluate the functions
  on. The bucket already exists (the answer of Google Cloud Storage is an error 409), the
  zone \<^verbatim>\<open>example.com\<close> resolves to \<^verbatim>\<open>z9\<close>, and the time-range fetch fails the first time it
  is called and succeeds afterwards.
\<close>

definition example_conf :: "float64 \<Rightarrow> config" where
  "example_conf s =
     \<lparr>apiKey = ''k'', apiEmail = ''e'', zoneID = ''z1'', zoneName = '''', startTime = 1000,
      endTime = 2000, count = 5, timestampFormat = ''unixnano'', sample = s, fields_conf = [],
      listFields = False, googleStorageBucket = '''', googleProjectID = ''''\<rparr>"

definition example_ctx :: "string \<Rightarrow> string \<Rightarrow> cli_Context" where
  "example_ctx zid zname =
     \<lparr>api_key = ''k'', api_email = ''e'', zone_id = zid, zone_name = zname, start_time = 1000,
      end_time = 2000, count_flag = 5, timestamp_format = ''unixnano'', sample_flag = 0,
      fields_flag = [], list_fields = False, google_storage_bucket = '''',
      google_project_id = '''', loop_wait = 60\<rparr>"

definition example_meta :: Meta where
  "example_meta = \<lparr>StatusCode = 200, Duration = 12, URL = ''https://api/logs'', Count = 5\<rparr>"

definition example_env :: extern where
  "example_env =
     \<lparr>cloudflare_New = (\<lambda>key email. (Some 1, None)),
      ZoneIDByName = (\<lambda>cf name. if name = ''example.com'' then (''z9'', None)
                                 else ('''', Some (Library ''Zone could not be found''))),
      gcs_NewClient = (Some 2, None),
      Bucket_Create = (\<lambda>g bucket project.
         Some (Library ''googleapi: Error 409: You already own this bucket., conflict'')),
      logshare_New = (\<lambda>key email opts. (Some 3, None)),
      FetchFieldNames = (\<lambda>t client zone. (Some example_meta, None)),
      GetFromTimestamp = (\<lambda>t client zone s e n.
         if range_fetches t = 0 then (None, Some (Library ''timeout''))
         else (Some example_meta, None)),
      time_Now_Unix = 1540000000\<rparr>"

definition example_world :: world where
  "example_world = \<lparr>conf = example_conf 0, trace = []\<rparr>"

text \<open>
  Some \<^verbatim>\<open>float64\<close> values: 0.05, 0.5, 0.95 and a quiet NaN (what \<^verbatim>\<open>--sample NaN\<close> parses
  to).
\<close>

definition f64_0_05 :: float64 where
  "f64_0_05 = 0x3FA999999999999A"

definition f64_0_5 :: float64 where
  "f64_0_5 = 0x3FE0000000000000"

definition f64_0_95 :: float64 where
  "f64_0_95 = 0x3FEE666666666666"

definition f64_NaN :: float64 where
  "f64_NaN = 0x7FF8000000000001"

section \<open>Configuration validation\<close>

lemmas f64_defs = f64_scaled_def f64_sign_def f64_magnitude_def f64_exponent_def
  f64_fraction_def f64_isNaN_def

lemmas f64_cmp_defs = f64_ne_def f64_eq_def f64_lt_def f64_gt_def f64_le_def

lemma f64_0_0_val: "f64_scaled f64_0_0 = 0" "\<not> f64_isNaN f64_0_0"
  by (simp_all add: f64_defs f64_0_0_def)

lemma f64_0_1_val: "0 < f64_scaled f64_0_1" "\<not> f64_isNaN f64_0_1"
  by (simp_all add: f64_defs f64_0_1_def)

lemma f64_0_9_val: "0 < f64_scaled f64_0_9" "\<not> f64_isNaN f64_0_9"
  by (simp_all add: f64_defs f64_0_9_def)

lemma f64_example_vals:
  "f64_lt f64_0_0 f64_0_05" "f64_lt f64_0_05 f64_0_1" "f64_gt f64_0_95 f64_0_9"
  "f64_eq 0 f64_0_0" "f64_le f64_0_1 f64_0_5" "f64_le f64_0_5 f64_0_9"
  by (simp_all add: f64_cmp_defs f64_defs f64_0_0_def f64_0_1_def f64_0_9_def
      f64_0_05_def f64_0_5_def f64_0_95_def)

text \<open>
  On a sampling rate that is a number, the test of the source is the negation of
  "zero, or between 0.1 and 0.9".
\<close>

lemma sample_check_iff:
  "\<not> f64_isNaN s \<Longrightarrow>
   (f64_ne s f64_0_0 \<and> (f64_lt s f64_0_1 \<or> f64_gt s f64_0_9)) =
   (\<not> (f64_eq s f64_0_0 \<or> (f64_le f64_0_1 s \<and> f64_le s f64_0_9)))"
  using f64_0_0_val f64_0_1_val f64_0_9_val
  by (auto simp: f64_cmp_defs)

text \<open>
  So, for every configuration whose sampling rate is not a NaN, \<open>Validate\<close> reports the
  first of the four invariants that fails, in the order credentials, zone, sampling
  rate, storage pairing, and returns nil when all four hold.
\<close>

lemma Validate_first_violation:
  "\<not> f64_isNaN (sample cfg) \<Longrightarrow>
   Validate cfg =
     (if \<not> (apiKey cfg \<noteq> '''' \<and> apiEmail cfg \<noteq> '''') then
        Some (errors_New ''Must provide both api-key and api-email'')
      else if \<not> (zoneID cfg \<noteq> '''' \<or> zoneName cfg \<noteq> '''') then
        Some (errors_New ''zone-name OR zone-id must be set'')
      else if \<not> (f64_eq (sample cfg) f64_0_0 \<or>
                  (f64_le f64_0_1 (sample cfg) \<and> f64_le (sample cfg) f64_0_9)) then
        Some (errors_New ''sample must be between 0.1 and 0.9'')
      else if \<not> ((googleStorageBucket cfg = '''') = (googleProjectID cfg = '''')) then
        Some (errors_New ''Both google-storage-bucket and google-project-id must be provided to upload to Google Storage'')
      else None)"
  using sample_check_iff [of "sample cfg"] by (simp add: Validate_def)

text \<open>
  Claim C3. \<open>Validate\<close> is to check the four invariants in order and to return the error
  of the first one violated, the third invariant being "the sampling rate is zero or in
  [0.1, 0.9]". A NaN is neither zero nor in the interval, yet every comparison of the
  source's test \<^verbatim>\<open>sample != 0.0 && (sample < 0.1 || sample > 0.9)\<close> but the first is false
  on it: with the other three invariants holding, \<open>Validate\<close> returns nil for a NaN
  sampling rate, where the message "sample must be between 0.1 and 0.9" was due.
\<close>

theorem Validate_accepts_NaN:
  "Validate (example_conf f64_NaN) = None
   \<and> \<not> (f64_eq f64_NaN f64_0_0 \<or> (f64_le f64_0_1 f64_NaN \<and> f64_le f64_NaN f64_0_9))"
  by (simp add: Validate_def example_conf_def f64_cmp_defs f64_defs f64_NaN_def
      f64_0_0_def f64_0_1_def f64_0_9_def)

text \<open>
  Claim C4. For every configuration whose other three invariants hold, \<open>Validate\<close>
  returns the sampling error when the rate is strictly between 0 and 0.1 or strictly
  greater than 0.9, and returns nil when the rate is equal to 0 or lies in [0.1, 0.9].
  The comparisons are Go's, against the \<^verbatim>\<open>float64\<close> constants of the source.
\<close>

theorem Validate_sample_range:
  assumes "apiKey cfg \<noteq> ''''" and "apiEmail cfg \<noteq> ''''"
    and "zoneID cfg \<noteq> '''' \<or> zoneName cfg \<noteq> ''''"
    and "(googleStorageBucket cfg = '''') = (googleProjectID cfg = '''')"
  shows "((f64_lt f64_0_0 (sample cfg) \<and> f64_lt (sample cfg) f64_0_1) \<or>
          f64_gt (sample cfg) f64_0_9
            \<longrightarrow> Validate cfg = Some (errors_New ''sample must be between 0.1 and 0.9''))
       \<and> (f64_eq (sample cfg) f64_0_0 \<or>
          (f64_le f64_0_1 (sample cfg) \<and> f64_le (sample cfg) f64_0_9)
            \<longrightarrow> Validate cfg = None)"
  using assms f64_0_0_val f64_0_1_val f64_0_9_val
  by (auto simp: Validate_def f64_cmp_defs)

theorem Validate_sample_range_witness:
  "Validate (example_conf f64_0_05) = Some (errors_New ''sample must be between 0.1 and 0.9'')
   \<and> Validate (example_conf f64_0_95) = Some (errors_New ''sample must be between 0.1 and 0.9'')
   \<and> Validate (example_conf 0) = None
   \<and> Validate (example_conf f64_0_5) = None"
  using Validate_sample_range [of "example_conf f64_0_05"]
        Validate_sample_range [of "example_conf f64_0_95"]
        Validate_sample_range [of "example_conf 0"]
        Validate_sample_range [of "example_conf f64_0_5"] f64_example_vals
  by (simp add: example_conf_def)

section \<open>The durable-storage sink\<close>

text \<open>
  Claim C1. Once \<^verbatim>\<open>gcs.NewClient\<close> has succeeded, a failure of the bucket creation whose
  text contains "409" is turned into success: \<open>setupGoogleStr\<close> returns the writer to the
  object \<open>filename\<close> of the bucket and a nil error. Any other failure of the creation
  is returned as it is, with a nil writer.
\<close>

theorem setupGoogleStr_create_error:
  assumes "gcs_NewClient env = (gClient, None)"
    and "Bucket_Create env gClient bucketName projectID = Some e"
  shows "(strings_Contains (Error e) ''409'' \<longrightarrow>
            fst (setupGoogleStr env projectID bucketName filename w) =
              Return (Some (gcs_Writer gClient bucketName filename), None))
       \<and> (\<not> strings_Contains (Error e) ''409'' \<longrightarrow>
            fst (setupGoogleStr env projectID bucketName filename w) = Return (None, Some e))"
  using assms by (simp add: setupGoogleStr_def Let_def)

theorem setupGoogleStr_create_error_witness:
  "fst (setupGoogleStr example_env ''proj'' ''logs'' ''cloudflare_els_z1_1540000000.json'' example_world)
     = Return (Some (gcs_Writer (Some 2) ''logs'' ''cloudflare_els_z1_1540000000.json''), None)
   \<and> fst (setupGoogleStr
        (example_env\<lparr>Bucket_Create := (\<lambda>g b p. Some (Library ''googleapi: Error 403: Forbidden''))\<rparr>)
        ''proj'' ''logs'' ''cloudflare_els_z1_1540000000.json'' example_world)
     = Return (None, Some (Library ''googleapi: Error 403: Forbidden''))"
  using setupGoogleStr_create_error [of example_env "Some 2" "''logs''" "''proj''"
           "Library ''googleapi: Error 409: You already own this bucket., conflict''"
           "''cloudflare_els_z1_1540000000.json''" example_world]
        setupGoogleStr_create_error [of 
           "example_env\<lparr>Bucket_Create := (\<lambda>g b p. Some (Library ''googleapi: Error 403: Forbidden''))\<rparr>"
           "Some 2" "''logs''" "''proj''"
           "Library ''googleapi: Error 403: Forbidden''"
           "''cloudflare_els_z1_1540000000.json''" example_world]
  by (simp add: example_env_def)

text \<open>
  Claim C2. The claim is that \<open>setupGoogleStr\<close> returns without panic for every outcome
  of the bucket creation. When the creation succeeds (the bucket did not exist), its
  result is a nil \<^verbatim>\<open>error\<close>, and the guard \<^verbatim>\<open>strings.Contains(error.Error(), "409")\<close>
  calls a method on it: the function panics.
\<close>

theorem setupGoogleStr_created_panics:
  "fst (setupGoogleStr (example_env\<lparr>Bucket_Create := (\<lambda>g b p. None)\<rparr>)
          ''proj'' ''logs'' ''cloudflare_els_z1_1540000000.json'' example_world) = Panic"
  by (simp add: setupGoogleStr_def example_env_def Let_def)

section \<open>Zone resolution\<close>

lemma parseFlags_conf: "zoneID (conf (snd (parseFlags c w))) = zone_id c"
  "apiKey (conf (snd (parseFlags c w))) = api_key c"
  "apiEmail (conf (snd (parseFlags c w))) = api_email c"
  "zoneName (conf (snd (parseFlags c w))) = zone_name c"
  "trace (snd (parseFlags c w)) = trace w"
  by (simp_all add: parseFlags_def Let_def)

text \<open>
  Claim C6, as the code has it. When the flags are valid, the zone identifier is empty
  and the lookup by name fails with \<open>e\<close>, the function returns no client, no closer and
  \<open>e\<close> wrapped with the context "could not find a zone for the given ID"; the text of the
  returned error is that context, a colon and the text of \<open>e\<close>.
\<close>

theorem zone_lookup_failure_wrapped:
  assumes "fst (parseFlags c w) = None"
    and "zone_id c = ''''"
    and "snd (ZoneIDByName env (fst (cloudflare_New env (api_key c) (api_email c))) (zone_name c)) = Some e"
  shows "fst (GetClientFromConfigAndContext env c w) =
           Return (None, [], Some (Wrapped e ''could not find a zone for the given ID''))
         \<and> Error (Wrapped e ''could not find a zone for the given ID'') =
             ''could not find a zone for the given ID: '' @ Error e"
  using assms
  by (simp add: GetClientFromConfigAndContext_def Let_def parseFlags_conf emit_def split_beta)

theorem zone_lookup_failure_wrapped_witness:
  "fst (GetClientFromConfigAndContext example_env (example_ctx '''' ''nosuch.example'') example_world) =
     Return (None, [], Some (Wrapped (Library ''Zone could not be found'') ''could not find a zone for the given ID''))
   \<and> Error (Wrapped (Library ''Zone could not be found'') ''could not find a zone for the given ID'') =
       ''could not find a zone for the given ID: Zone could not be found''"
  using zone_lookup_failure_wrapped [of "example_ctx '''' ''nosuch.example''" example_world example_env
          "Library ''Zone could not be found''"]
  by (simp add: example_env_def example_ctx_def parseFlags_def Validate_def Let_def f64_cmp_defs f64_defs f64_0_0_def)

text \<open>
  Claim C6, as it is written, names the context "could not find a zone for the given
  name/ID". On a lookup that fails, the returned error is not the one wrapped with that
  context, and its text does not contain it.
\<close>

theorem zone_lookup_context_counterexample:
  "zone_id (example_ctx '''' ''nosuch.example'') = ''''
   \<and> snd (ZoneIDByName example_env (fst (cloudflare_New example_env ''k'' ''e'')) ''nosuch.example'')
        = Some (Library ''Zone could not be found'')
   \<and> fst (GetClientFromConfigAndContext example_env (example_ctx '''' ''nosuch.example'') example_world)
        = Return (None, [], Some (Wrapped (Library ''Zone could not be found'')
                                      ''could not find a zone for the given ID''))
   \<and> Wrapped (Library ''Zone could not be found'') ''could not find a zone for the given ID''
        \<noteq> Wrapped (Library ''Zone could not be found'') ''could not find a zone for the given name/ID''
   \<and> \<not> strings_Contains
          (Error (Wrapped (Library ''Zone could not be found'') ''could not find a zone for the given ID''))
          ''could not find a zone for the given name/ID''"
  by (simp add: GetClientFromConfigAndContext_def example_env_def example_ctx_def parseFlags_def
      Validate_def Let_def f64_cmp_defs f64_defs f64_0_0_def emit_def example_world_def)

section \<open>What the functions leave unchanged\<close>

text \<open>
  For each function: the configuration after it, and the number of lookups by name on
  its trace.
\<close>

lemma emit_simps: "trace (emit e w) = trace w @ [e]" "conf (emit e w) = conf w"
  by (simp_all add: emit_def)

lemma lookups_simps:
  "lookups [] = 0"
  "lookups (a @ b) = lookups a + lookups b"
  "lookups (e # t) = (if is_lookup e then 1 else 0) + lookups t"
  by (simp_all add: lookups_def)

lemma setupGoogleStr_frame:
  "conf (snd (setupGoogleStr env p b f w)) = conf w"
  "lookups (trace (snd (setupGoogleStr env p b f w))) = lookups (trace w)"
  "Ev_ShowAppHelp \<in> set (trace (snd (setupGoogleStr env p b f w))) \<longleftrightarrow> Ev_ShowAppHelp \<in> set (trace w)"
  by (simp_all add: setupGoogleStr_def Let_def split_beta emit_simps lookups_simps split: option.splits)

lemma GetClient_build_frame:
  "conf (snd (GetClient_build env cs ow w)) = conf w"
  "lookups (trace (snd (GetClient_build env cs ow w))) = lookups (trace w)"
  "Ev_ShowAppHelp \<in> set (trace (snd (GetClient_build env cs ow w))) \<longleftrightarrow> Ev_ShowAppHelp \<in> set (trace w)"
  by (simp_all add: GetClient_build_def Let_def split_beta emit_simps lookups_simps)

lemma GetClient_sink_and_client_frame:
  "conf (snd (GetClient_sink_and_client env cs w)) = conf w"
  "lookups (trace (snd (GetClient_sink_and_client env cs w))) = lookups (trace w)"
  "Ev_ShowAppHelp \<in> set (trace (snd (GetClient_sink_and_client env cs w))) \<longleftrightarrow> Ev_ShowAppHelp \<in> set (trace w)"
proof -
  let ?s = "setupGoogleStr env (googleProjectID (conf w)) (googleStorageBucket (conf w))
              (''cloudflare_els_'' @ zoneID (conf w) @ ''_'' @ strconv_Itoa (time_Now_Unix env) @ ''.json'') w"
  obtain r w1 where s: "?s = (r, w1)" by (cases ?s)
  have f: "conf w1 = conf w" "lookups (trace w1) = lookups (trace w)"
    "Ev_ShowAppHelp \<in> set (trace w1) \<longleftrightarrow> Ev_ShowAppHelp \<in> set (trace w)"
    using setupGoogleStr_frame [of env "googleProjectID (conf w)" "googleStorageBucket (conf w)"
        "''cloudflare_els_'' @ zoneID (conf w) @ ''_'' @ strconv_Itoa (time_Now_Unix env) @ ''.json''" w] s
    by simp_all
  show "conf (snd (GetClient_sink_and_client env cs w)) = conf w"
    using s f by (simp add: GetClient_sink_and_client_def Let_def GetClient_build_frame split: exec.splits prod.splits)
  show "lookups (trace (snd (GetClient_sink_and_client env cs w))) = lookups (trace w)"
    using s f by (simp add: GetClient_sink_and_client_def Let_def GetClient_build_frame split: exec.splits prod.splits)
  show "Ev_ShowAppHelp \<in> set (trace (snd (GetClient_sink_and_client env cs w))) \<longleftrightarrow> Ev_ShowAppHelp \<in> set (trace w)"
    using s f by (simp add: GetClient_sink_and_client_def Let_def GetClient_build_frame split: exec.splits prod.splits)
qed

lemma ClientWork_log_frame:
  "conf (snd (ClientWork_log meta w)) = conf w"
  "lookups (trace (snd (ClientWork_log meta w))) = lookups (trace w)"
  by (simp_all add: ClientWork_log_def emit_simps lookups_simps split: option.splits)

lemma ClientWork_frame:
  "conf (snd (ClientWork env cl w)) = conf w"
  "lookups (trace (snd (ClientWork env cl w))) = lookups (trace w)"
  by (simp_all add: ClientWork_def Let_def split_beta ClientWork_log_frame emit_simps lookups_simps)

lemma close_all_frame:
  "conf (close_all cs w) = conf w"
  "lookups (trace (close_all cs w)) = lookups (trace w)"
  by (induction cs arbitrary: w) (simp_all add: emit_simps lookups_simps)

lemma loop_body_frame:
  "conf (snd (loop_body env lt cl w)) = conf w"
  "lookups (trace (snd (loop_body env lt cl w))) = lookups (trace w)"
proof -
  obtain r w1 where s: "ClientWork env cl w = (r, w1)" by (cases "ClientWork env cl w")
  have f: "conf w1 = conf w" "lookups (trace w1) = lookups (trace w)"
    using ClientWork_frame [of env cl w] s by simp_all
  show "conf (snd (loop_body env lt cl w)) = conf w"
    using s f by (simp add: loop_body_def Let_def emit_simps split: exec.splits option.splits)
  show "lookups (trace (snd (loop_body env lt cl w))) = lookups (trace w)"
    using s f by (simp add: loop_body_def Let_def emit_simps lookups_simps split: exec.splits option.splits)
qed

lemma runLoop_for_frame:
  "conf (snd (runLoop_for env lt cl n w)) = conf w \<and>
   lookups (trace (snd (runLoop_for env lt cl n w))) = lookups (trace w)"
proof (induction n arbitrary: w)
  case 0
  show ?case by simp
next
  case (Suc n)
  obtain r w1 where s: "loop_body env lt cl w = (r, w1)" by (cases "loop_body env lt cl w")
  have f: "conf w1 = conf w" "lookups (trace w1) = lookups (trace w)"
    using loop_body_frame [of env lt cl w] s by simp_all
  show ?case using s f Suc.IH [of w1] by (simp split: exec.splits)
qed


lemma GetClient_frame:
  "conf (snd (GetClientFromConfigAndContext env c w)) =
     (conf (snd (parseFlags c w)))\<lparr>zoneID := zoneID (conf (snd (GetClientFromConfigAndContext env c w)))\<rparr>"
  "zone_id c \<noteq> '''' \<Longrightarrow> conf (snd (GetClientFromConfigAndContext env c w)) = conf (snd (parseFlags c w))"
  "zoneID (conf (snd (GetClientFromConfigAndContext env c w))) = zone_id c \<or>
   (zone_id c = '''' \<and>
    zoneID (conf (snd (GetClientFromConfigAndContext env c w))) =
      fst (ZoneIDByName env (fst (cloudflare_New env (api_key c) (api_email c))) (zone_name c)))"
  by (simp_all add: GetClientFromConfigAndContext_def Let_def split_beta emit_simps
      GetClient_sink_and_client_frame parseFlags_conf)

lemma GetClient_lookups:
  "lookups (trace (snd (GetClientFromConfigAndContext env c w))) \<le> lookups (trace w) + 1"
  "zone_id c \<noteq> '''' \<Longrightarrow>
     lookups (trace (snd (GetClientFromConfigAndContext env c w))) = lookups (trace w)"
  by (simp_all add: GetClientFromConfigAndContext_def Let_def split_beta emit_simps lookups_simps
      GetClient_sink_and_client_frame parseFlags_conf)

lemma run_frame:
  "conf (snd (run env c w)) = conf (snd (GetClientFromConfigAndContext env c w))"
  "lookups (trace (snd (run env c w))) = lookups (trace (snd (GetClientFromConfigAndContext env c w)))"
proof -
  obtain r w1 where s: "GetClientFromConfigAndContext env c w = (r, w1)"
    by (cases "GetClientFromConfigAndContext env c w")
  show "conf (snd (run env c w)) = conf (snd (GetClientFromConfigAndContext env c w))"
    using s by (simp add: run_def split_beta close_all_frame ClientWork_frame split: exec.splits)
  show "lookups (trace (snd (run env c w))) = lookups (trace (snd (GetClientFromConfigAndContext env c w)))"
    using s by (simp add: run_def split_beta close_all_frame ClientWork_frame split: exec.splits)
qed

lemma runLoop_frame:
  "conf (snd (runLoop env c n w)) = conf (snd (GetClientFromConfigAndContext env c w))"
  "lookups (trace (snd (runLoop env c n w))) = lookups (trace (snd (GetClientFromConfigAndContext env c w)))"
proof -
  obtain r w1 where s: "GetClientFromConfigAndContext env c w = (r, w1)"
    by (cases "GetClientFromConfigAndContext env c w")
  show "conf (snd (runLoop env c n w)) = conf (snd (GetClientFromConfigAndContext env c w))"
    using s by (simp add: runLoop_def Let_def split_beta close_all_frame runLoop_for_frame split: exec.splits)
  show "lookups (trace (snd (runLoop env c n w))) = lookups (trace (snd (GetClientFromConfigAndContext env c w)))"
    using s by (simp add: runLoop_def Let_def split_beta close_all_frame runLoop_for_frame split: exec.splits)
qed

text \<open>
  Claim C5. With a non-empty zone identifier on the command line, the configuration
  keeps that identifier and \<^verbatim>\<open>ZoneIDByName\<close> is not called; a call of \<^verbatim>\<open>ZoneIDByName\<close>
  happens only when the identifier is empty. \<open>ClientWork\<close> and any number of iterations
  of the loop never call it, so that a whole invocation, single-shot or loop, looks the
  zone up at most once.
\<close>

theorem zone_lookup_only_when_needed:
  "(zone_id c \<noteq> '''' \<longrightarrow>
      zoneID (conf (snd (GetClientFromConfigAndContext env c w))) = zone_id c \<and>
      lookups (trace (snd (GetClientFromConfigAndContext env c w))) = lookups (trace w))
   \<and> (lookups (trace (snd (GetClientFromConfigAndContext env c w))) \<noteq> lookups (trace w) \<longrightarrow>
        zone_id c = '''')
   \<and> lookups (trace (snd (ClientWork env client w))) = lookups (trace w)
   \<and> lookups (trace (snd (runLoop_for env loopTime client n w))) = lookups (trace w)
   \<and> lookups (trace (snd (run env c w))) \<le> lookups (trace w) + 1
   \<and> lookups (trace (snd (runLoop env c n w))) \<le> lookups (trace w) + 1"
  using GetClient_frame(2) [where env=env and c=c and w=w] GetClient_lookups [where env=env and c=c and w=w]
  by (auto simp: parseFlags_conf ClientWork_frame runLoop_for_frame run_frame runLoop_frame)

theorem zone_lookup_only_when_needed_witness:
  "zone_id (example_ctx ''z1'' '''') \<noteq> ''''
   \<and> zoneID (conf (snd (GetClientFromConfigAndContext example_env (example_ctx ''z1'' '''')
                          example_world))) = ''z1''
   \<and> lookups (trace (snd (GetClientFromConfigAndContext example_env (example_ctx ''z1'' '''')
                            example_world))) = 0
   \<and> lookups (trace (snd (GetClientFromConfigAndContext example_env
                            (example_ctx '''' ''example.com'') example_world))) = 1
   \<and> zone_id (example_ctx '''' ''example.com'') = ''''"
proof -
  have one: "lookups (trace (snd (GetClientFromConfigAndContext example_env
                (example_ctx '''' ''example.com'') example_world))) = 1"
    by (simp add: GetClientFromConfigAndContext_def GetClient_sink_and_client_def
        GetClient_build_def example_env_def example_ctx_def example_world_def parseFlags_def
        Validate_def Let_def f64_cmp_defs f64_defs f64_0_0_def emit_def lookups_def)
  show ?thesis
    using one
      zone_lookup_only_when_needed [of "example_ctx ''z1'' ''''" example_env example_world]
      zone_lookup_only_when_needed [of "example_ctx '''' ''example.com''" example_env example_world]
    by (simp add: example_ctx_def example_world_def lookups_def)
qed

text \<open>
  Claim C9. After \<open>parseFlags\<close> has populated the configuration, client construction
  changes no field but the zone identifier, and not even that one when the command line
  gave an identifier; when it changes, the new value is the answer of the one lookup.
  \<open>ClientWork\<close>, any number of iterations of the loop, and the closing of the sinks
  leave the whole configuration as it is.
\<close>

theorem config_frame:
  "conf (snd (GetClientFromConfigAndContext env c w)) =
     (conf (snd (parseFlags c w)))\<lparr>zoneID := zoneID (conf (snd (GetClientFromConfigAndContext env c w)))\<rparr>
   \<and> (zone_id c \<noteq> '''' \<longrightarrow>
        conf (snd (GetClientFromConfigAndContext env c w)) = conf (snd (parseFlags c w)))
   \<and> (zoneID (conf (snd (GetClientFromConfigAndContext env c w))) = zone_id c \<or>
       (zone_id c = '''' \<and>
        zoneID (conf (snd (GetClientFromConfigAndContext env c w))) =
          fst (ZoneIDByName env (fst (cloudflare_New env (api_key c) (api_email c))) (zone_name c))))
   \<and> conf (snd (ClientWork env client w)) = conf w
   \<and> conf (snd (runLoop_for env loopTime client n w)) = conf w
   \<and> conf (snd (run env c w)) = conf (snd (GetClientFromConfigAndContext env c w))
   \<and> conf (snd (runLoop env c n w)) = conf (snd (GetClientFromConfigAndContext env c w))"
  using GetClient_frame [where env=env and c=c and w=w]
  by (simp add: ClientWork_frame runLoop_for_frame run_frame runLoop_frame)

theorem config_frame_witness:
  "zone_id (example_ctx ''z1'' '''') \<noteq> ''''
   \<and> conf (snd (GetClientFromConfigAndContext example_env (example_ctx ''z1'' '''') example_world))
       = conf (snd (parseFlags (example_ctx ''z1'' '''') example_world))"
  using config_frame [of example_env "example_ctx ''z1'' ''''" example_world]
  by (simp add: example_ctx_def)

section \<open>Fetch dispatch\<close>

lemma fetch_count_simps:
  "field_fetches (a @ b) = field_fetches a + field_fetches b"
  "field_fetches (e # t) = (if is_field_fetch e then 1 else 0) + field_fetches t"
  "field_fetches [] = 0"
  "range_fetches (a @ b) = range_fetches a + range_fetches b"
  "range_fetches (e # t) = (if is_range_fetch e then 1 else 0) + range_fetches t"
  "range_fetches [] = 0"
  by (simp_all add: field_fetches_def range_fetches_def)

lemma ClientWork_log_fetches:
  "field_fetches (trace (snd (ClientWork_log meta w))) = field_fetches (trace w)"
  "range_fetches (trace (snd (ClientWork_log meta w))) = range_fetches (trace w)"
  by (simp_all add: ClientWork_log_def emit_simps fetch_count_simps split: option.splits)

lemma ClientWork_listFields:
  assumes "listFields (conf w)"
  shows "field_fetches (trace (snd (ClientWork env client w))) = field_fetches (trace w) + 1"
    and "range_fetches (trace (snd (ClientWork env client w))) = range_fetches (trace w)"
    and "FetchFieldNames env (trace w) client (zoneID (conf w)) = (meta, Some e) \<Longrightarrow>
         ClientWork env client w =
           (Return (Some (Wrapped e ''failed to fetch field names'')),
            w\<lparr>trace := trace w @ [Ev_FetchFieldNames (zoneID (conf w))]\<rparr>)"
    and "FetchFieldNames env (trace w) client (zoneID (conf w)) = (Some m, None) \<Longrightarrow>
         ClientWork env client w =
           (Return None,
            w\<lparr>trace := trace w @ [Ev_FetchFieldNames (zoneID (conf w)),
                                   Ev_log_HTTP_status (StatusCode m) (Duration m) (URL m),
                                   Ev_log_Retrieved (Count m)]\<rparr>)"
  using assms
     apply (simp_all add: ClientWork_def Let_def split_beta ClientWork_log_fetches emit_simps
      fetch_count_simps)
   apply (simp_all add: ClientWork_log_def emit_def)
  done

lemma ClientWork_time_range:
  assumes "\<not> listFields (conf w)"
  shows "range_fetches (trace (snd (ClientWork env client w))) = range_fetches (trace w) + 1"
    and "field_fetches (trace (snd (ClientWork env client w))) = field_fetches (trace w)"
    and "GetFromTimestamp env (trace w) client (zoneID (conf w)) (startTime (conf w))
           (endTime (conf w)) (count (conf w)) = (meta, Some e) \<Longrightarrow>
         ClientWork env client w =
           (Return (Some (Wrapped e ''failed to fetch via timestamp'')),
            w\<lparr>trace := trace w @ [Ev_GetFromTimestamp (zoneID (conf w)) (startTime (conf w))
                                    (endTime (conf w)) (count (conf w))]\<rparr>)"
    and "GetFromTimestamp env (trace w) client (zoneID (conf w)) (startTime (conf w))
           (endTime (conf w)) (count (conf w)) = (Some m, None) \<Longrightarrow>
         ClientWork env client w =
           (Return None,
            w\<lparr>trace := trace w @ [Ev_GetFromTimestamp (zoneID (conf w)) (startTime (conf w))
                                    (endTime (conf w)) (count (conf w)),
                                   Ev_log_HTTP_status (StatusCode m) (Duration m) (URL m),
                                   Ev_log_Retrieved (Count m)]\<rparr>)"
  using assms
     apply (simp_all add: ClientWork_def Let_def split_beta ClientWork_log_fetches emit_simps
      fetch_count_simps)
   apply (simp_all add: ClientWork_log_def emit_def)
  done

text \<open>
  Claim C7. Each call of \<open>ClientWork\<close> makes exactly one fetch: with \<^verbatim>\<open>listFields\<close> the
  field enumeration on the zone identifier of the configuration and no time-range fetch,
  otherwise the time-range fetch on the zone identifier, start time, end time and count
  and no field enumeration. When the fetch gives an error, \<open>ClientWork\<close> returns it
  wrapped with "failed to fetch field names" or "failed to fetch via timestamp" and logs
  nothing; when it gives metadata and no error, the two lines of metadata are logged and
  nil is returned.
\<close>

theorem ClientWork_dispatch:
  "(listFields (conf w) \<longrightarrow>
      field_fetches (trace (snd (ClientWork env client w))) = field_fetches (trace w) + 1
      \<and> range_fetches (trace (snd (ClientWork env client w))) = range_fetches (trace w)
      \<and> (\<forall>meta e. FetchFieldNames env (trace w) client (zoneID (conf w)) = (meta, Some e) \<longrightarrow>
           ClientWork env client w =
             (Return (Some (Wrapped e ''failed to fetch field names'')),
              w\<lparr>trace := trace w @ [Ev_FetchFieldNames (zoneID (conf w))]\<rparr>))
      \<and> (\<forall>m. FetchFieldNames env (trace w) client (zoneID (conf w)) = (Some m, None) \<longrightarrow>
           ClientWork env client w =
             (Return None,
              w\<lparr>trace := trace w @ [Ev_FetchFieldNames (zoneID (conf w)),
                                     Ev_log_HTTP_status (StatusCode m) (Duration m) (URL m),
                                     Ev_log_Retrieved (Count m)]\<rparr>)))
   \<and> (\<not> listFields (conf w) \<longrightarrow>
      range_fetches (trace (snd (ClientWork env client w))) = range_fetches (trace w) + 1
      \<and> field_fetches (trace (snd (ClientWork env client w))) = field_fetches (trace w)
      \<and> (\<forall>meta e. GetFromTimestamp env (trace w) client (zoneID (conf w)) (startTime (conf w))
                      (endTime (conf w)) (count (conf w)) = (meta, Some e) \<longrightarrow>
           ClientWork env client w =
             (Return (Some (Wrapped e ''failed to fetch via timestamp'')),
              w\<lparr>trace := trace w @ [Ev_GetFromTimestamp (zoneID (conf w)) (startTime (conf w))
                                      (endTime (conf w)) (count (conf w))]\<rparr>))
      \<and> (\<forall>m. GetFromTimestamp env (trace w) client (zoneID (conf w)) (startTime (conf w))
                 (endTime (conf w)) (count (conf w)) = (Some m, None) \<longrightarrow>
           ClientWork env client w =
             (Return None,
              w\<lparr>trace := trace w @ [Ev_GetFromTimestamp (zoneID (conf w)) (startTime (conf w))
                                      (endTime (conf w)) (count (conf w)),
                                     Ev_log_HTTP_status (StatusCode m) (Duration m) (URL m),
                                     Ev_log_Retrieved (Count m)]\<rparr>)))"
proof (cases "listFields (conf w)")
  case True
  then show ?thesis
    using ClientWork_listFields [where w=w and env=env and client=client] by blast
next
  case False
  then show ?thesis
    using ClientWork_time_range [where w=w and env=env and client=client] by blast
qed


theorem ClientWork_dispatch_witness:
  "ClientWork example_env (Some 3) example_world =
     (Return (Some (Wrapped (Library ''timeout'') ''failed to fetch via timestamp'')),
      example_world\<lparr>trace := [Ev_GetFromTimestamp ''z1'' 1000 2000 5]\<rparr>)
   \<and> ClientWork example_env (Some 3)
        (example_world\<lparr>trace := [Ev_GetFromTimestamp ''z1'' 1000 2000 5]\<rparr>) =
     (Return None,
      example_world\<lparr>trace := [Ev_GetFromTimestamp ''z1'' 1000 2000 5,
                               Ev_GetFromTimestamp ''z1'' 1000 2000 5,
                               Ev_log_HTTP_status 200 12 ''https://api/logs'',
                               Ev_log_Retrieved 5]\<rparr>)
   \<and> ClientWork example_env (Some 3)
        (example_world\<lparr>conf := (example_conf 0)\<lparr>listFields := True\<rparr>\<rparr>) =
     (Return None,
      example_world\<lparr>conf := (example_conf 0)\<lparr>listFields := True\<rparr>,
                     trace := [Ev_FetchFieldNames ''z1'',
                               Ev_log_HTTP_status 200 12 ''https://api/logs'',
                               Ev_log_Retrieved 5]\<rparr>)
   \<and> ClientWork (example_env\<lparr>FetchFieldNames := (\<lambda>t client zone. (None, Some (Library ''denied'')))\<rparr>)
        (Some 3) (example_world\<lparr>conf := (example_conf 0)\<lparr>listFields := True\<rparr>\<rparr>) =
     (Return (Some (Wrapped (Library ''denied'') ''failed to fetch field names'')),
      example_world\<lparr>conf := (example_conf 0)\<lparr>listFields := True\<rparr>,
                     trace := [Ev_FetchFieldNames ''z1'']\<rparr>)"
  using ClientWork_dispatch [of example_world example_env "Some 3"]
    ClientWork_dispatch [of "example_world\<lparr>trace := [Ev_GetFromTimestamp ''z1'' 1000 2000 5]\<rparr>"
      example_env "Some 3"]
    ClientWork_dispatch [of "example_world\<lparr>conf := (example_conf 0)\<lparr>listFields := True\<rparr>\<rparr>"
      example_env "Some 3"]
    ClientWork_dispatch [of "example_world\<lparr>conf := (example_conf 0)\<lparr>listFields := True\<rparr>\<rparr>"
      "example_env\<lparr>FetchFieldNames := (\<lambda>t client zone. (None, Some (Library ''denied'')))\<rparr>" "Some 3"]
  by (simp add: example_env_def example_world_def example_conf_def example_meta_def
      range_fetches_def)

section \<open>Loop mode\<close>




lemma sleep_duration:
  assumes "0 \<le> sint loopTime" and "sint loopTime \<le> 9223372036"
  shows "sint (loopTime * time_Second) = sint loopTime * 1000000000"
proof -
  have s: "sint time_Second = 1000000000" by (simp add: time_Second_def)
  have lo: "- (2 ^ 63) \<le> sint loopTime * 1000000000" using assms by simp
  have hi: "sint loopTime * 1000000000 < 2 ^ 63" using assms by simp
  have "sint (loopTime * time_Second) = signed_take_bit 63 (sint loopTime * sint time_Second)"
    by (simp add: sint_word_ariths)
  also have "\<dots> = sint loopTime * 1000000000"
    using lo hi by (simp add: s signed_take_bit_int_eq_self)
  finally show ?thesis .
qed



section \<open>The error of \<^verbatim>\<open>cloudflare.New\<close>\<close>







end
